theory Spec2Isabelle
  imports Complex_Main
begin

section \<open>Scheduler (moler/scheduler.py)\<close>

text \<open>
  The scheduler hands a callable to an interval scheduler (apscheduler), which owns the
  timer. One job is modelled: the clock is a list of events, a \<open>Tick\<close> being one firing
  of the interval trigger. The user's callback is a function from the number of earlier
  invocations to what this invocation does.
\<close>

datatype outcome = Returned | Raised

text \<open>The two bound callables a \<open>DecoratedCallable\<close> has: the attribute \<open>callback\<close>
  (the user's function as given) and the method \<open>call\<close> (the guarded wrapper).\<close>

datatype callable = Attr_callback | Method_call

record DecoratedCallable =
  cancel_on_exception :: bool
  job :: bool  \<comment> \<open>\<open>self.job\<close> is set (not \<open>None\<close>)\<close>

record job_internal =
  paused :: bool
  func :: callable  \<comment> \<open>what \<open>add_job\<close> was given\<close>
  decorated :: DecoratedCallable
  invocations :: nat  \<comment> \<open>how often the user's callback has been entered\<close>

definition pause :: "job_internal \<Rightarrow> job_internal" where
  "pause j = j\<lparr>paused := True\<rparr>"

definition resume :: "job_internal \<Rightarrow> job_internal" where
  "resume j = j\<lparr>paused := False\<rparr>"

text \<open>\<open>Job.start\<close> and \<open>Job.cancel\<close> delegate to the wrapped job.\<close>

definition Job_start :: "job_internal \<Rightarrow> job_internal" where
  "Job_start j = resume j"

definition Job_cancel :: "job_internal \<Rightarrow> job_internal" where
  "Job_cancel j = pause j"

text \<open>Entering the user's callback: the invocation is counted, its outcome returned.\<close>

definition invoke_callback :: "(nat \<Rightarrow> outcome) \<Rightarrow> job_internal \<Rightarrow> outcome \<times> job_internal" where
  "invoke_callback cb j = (cb (invocations j), j\<lparr>invocations := Suc (invocations j)\<rparr>)"

text \<open>\<open>DecoratedCallable.call\<close>: every exception of the callback is caught; with
  \<open>cancel_on_exception\<close> and a job attached, the job is cancelled.\<close>

definition DecoratedCallable_call :: "(nat \<Rightarrow> outcome) \<Rightarrow> job_internal \<Rightarrow> job_internal" where
  "DecoratedCallable_call cb j =
     (case invoke_callback cb j of
        (Returned, j') \<Rightarrow> j'
      | (Raised, j') \<Rightarrow>
          (if cancel_on_exception (decorated j') then
             (if job (decorated j') then Job_cancel j' else j')
           else j'))"

text \<open>\<open>add_job\<close> of the interval scheduler: a new job, scheduled (not paused).\<close>

definition add_job :: "callable \<Rightarrow> DecoratedCallable \<Rightarrow> job_internal" where
  "add_job f d = \<lparr>paused = False, func = f, decorated = d, invocations = 0\<rparr>"

text \<open>\<open>Scheduler.get_job\<close>: the job is added with \<open>decorated.callback\<close>, paused, wrapped
  in a \<open>Job\<close>, and the \<open>Job\<close> stored in \<open>decorated.job\<close>.\<close>

definition get_job :: "bool \<Rightarrow> job_internal" where
  "get_job coe =
     (let decorated0 = \<lparr>cancel_on_exception = coe, job = False\<rparr>;
          job_internal0 = add_job Attr_callback decorated0;
          job_internal1 = pause job_internal0
      in job_internal1\<lparr>decorated := decorated0\<lparr>job := True\<rparr>\<rparr>)"

text \<open>One firing of the trigger. A paused job is skipped. Otherwise the registered
  callable runs; an exception that leaves it is logged by the scheduler's executor and
  the job stays scheduled.\<close>

definition tick :: "(nat \<Rightarrow> outcome) \<Rightarrow> job_internal \<Rightarrow> job_internal" where
  "tick cb j =
     (if paused j then j
      else (case func j of
              Attr_callback \<Rightarrow> snd (invoke_callback cb j)
            | Method_call \<Rightarrow> DecoratedCallable_call cb j))"

datatype event = Tick | Start | Cancel

fun step :: "(nat \<Rightarrow> outcome) \<Rightarrow> job_internal \<Rightarrow> event \<Rightarrow> job_internal" where
  "step cb j Tick = tick cb j"
| "step cb j Start = Job_start j"
| "step cb j Cancel = Job_cancel j"

fun run :: "(nat \<Rightarrow> outcome) \<Rightarrow> job_internal \<Rightarrow> event list \<Rightarrow> job_internal" where
  "run cb j [] = j"
| "run cb j (e # es) = run cb (step cb j e) es"

section \<open>Exceptions\<close>

text \<open>The exception classes the modelled code raises or stores. Timeout exceptions
  carry the timeout, the kind of run and the passed time they were built with; the two
  \<open>WrongState\<close> exceptions carry the creation state and the current state.\<close>

datatype exn =
    CommandTimeout "real option" string real
  | ConnectionObserverTimeout "real option" string real
  | MolerException string
  | CommandWrongState string string
  | EventWrongState string string
  | WrongUsage
  | RemoteEndpointNotConnected
  | KeyError
  | AttributeError string
  | TypeError
  | ImportError
  | OtherException string  \<comment> \<open>any other \<open>Exception\<close>, such as a parser's\<close>

section \<open>Connection observers\<close>

text \<open>
  Modelled from the spec: class \<open>ConnectionObserver\<close> (with \<open>Command\<close> and \<open>Event\<close>) is
  not among the sources; the runner only uses its attributes \<open>start_time\<close>, \<open>timeout\<close>,
  \<open>command_string\<close>, \<open>_exception\<close>, \<open>_result\<close> and its methods \<open>done\<close>, \<open>cancelled\<close>,
  \<open>set_exception\<close>, \<open>cancel\<close>, \<open>on_timeout\<close>, \<open>data_received\<close>. Times are seconds, as
  real numbers. \<open>command_string\<close> is \<open>None\<close> where the object has no such attribute
  (an event).
\<close>

record observer =
  start_time :: real
  timeout :: "real option"
  command_string :: "string option"
  is_done :: bool
  is_cancelled :: bool
  exception :: "exn option"
  result :: "string option"
  on_timeout_calls :: nat

definition observer_done :: "observer \<Rightarrow> bool" where
  "observer_done ob = is_done ob"

definition hasattr_command_string :: "observer \<Rightarrow> bool" where
  "hasattr_command_string ob = (command_string ob \<noteq> None)"

text \<open>Modelled from the spec: \<open>set_exception\<close> and \<open>cancel\<close> are terminal transitions, and
  a repeated terminal attempt is a no-op.\<close>

definition set_exception :: "exn \<Rightarrow> observer \<Rightarrow> observer" where
  "set_exception e ob =
     (if observer_done ob then ob else ob\<lparr>is_done := True, exception := Some e\<rparr>)"

definition observer_cancel :: "observer \<Rightarrow> observer" where
  "observer_cancel ob =
     (if observer_done ob then ob else ob\<lparr>is_done := True, is_cancelled := True\<rparr>)"

text \<open>Modelled from the spec: \<open>on_timeout\<close> is an extension hook; the model counts its
  calls.\<close>

definition on_timeout :: "observer \<Rightarrow> observer" where
  "on_timeout ob = ob\<lparr>on_timeout_calls := Suc (on_timeout_calls ob)\<rparr>"

section \<open>Runner (moler/runner.py)\<close>

subsection \<open>Futures\<close>

text \<open>The states of a \<open>concurrent.futures.Future\<close> and its methods \<open>running\<close>, \<open>done\<close> and
  \<open>cancel\<close> (standard library).\<close>

datatype future_state = PENDING | RUNNING | CANCELLED | CANCELLED_AND_NOTIFIED | FINISHED

record CancellableFuture =
  fstate :: future_state  \<comment> \<open>\<open>_future._state\<close>\<close>
  stop_running :: bool  \<comment> \<open>the event \<open>stop_feeding\<close>\<close>
  feed_done :: bool  \<comment> \<open>the event \<open>is_done\<close>\<close>
  stop_timeout :: real

definition CancellableFuture_init :: "future_state \<Rightarrow> bool \<Rightarrow> bool \<Rightarrow> CancellableFuture" where
  "CancellableFuture_init st stop is_dn =
     \<lparr>fstate = st, stop_running = stop, feed_done = is_dn, stop_timeout = 0.5\<rparr>"

definition running :: "CancellableFuture \<Rightarrow> bool" where
  "running f = (fstate f = RUNNING)"


subsection \<open>The world a runner call sees\<close>

text \<open>
  What the calls on an observer did is logged, with the lock operations around them, so
  that "under the lock" is a property of the log.
\<close>

datatype action =
    Acquire
  | Release
  | Call_data_received string
  | Call_set_exception exn
  | Call_on_timeout
  | Call_cancel
  | Wait_future real  \<comment> \<open>\<open>wait([future], timeout)\<close>\<close>
  | Wait_is_done real  \<comment> \<open>\<open>is_done.wait(timeout)\<close>\<close>
  | Sleep real

record world =
  clock :: real  \<comment> \<open>what \<open>time.time()\<close> returns\<close>
  obs :: observer
  fut :: CancellableFuture
  in_shutdown :: bool
  trace :: "action list"

text \<open>What the other threads (and the clock) do while a call blocks for at most the
  given number of seconds.\<close>

type_synonym env = "real \<Rightarrow> world \<Rightarrow> world"

definition log :: "action \<Rightarrow> world \<Rightarrow> world" where
  "log a w = w\<lparr>trace := trace w @ [a]\<rparr>"

definition with_lock :: "(world \<Rightarrow> world) \<Rightarrow> world \<Rightarrow> world" where
  "with_lock f w = log Release (f (log Acquire w))"

definition call_set_exception :: "exn \<Rightarrow> world \<Rightarrow> world" where
  "call_set_exception e w = log (Call_set_exception e) (w\<lparr>obs := set_exception e (obs w)\<rparr>)"

definition call_on_timeout :: "world \<Rightarrow> world" where
  "call_on_timeout w = log Call_on_timeout (w\<lparr>obs := on_timeout (obs w)\<rparr>)"

definition call_cancel :: "world \<Rightarrow> world" where
  "call_cancel w = log Call_cancel (w\<lparr>obs := observer_cancel (obs w)\<rparr>)"

subsection \<open>\<open>time_out_observer\<close>, \<open>his_remaining_time\<close>\<close>

definition time_out_observer :: "real option \<Rightarrow> real \<Rightarrow> string \<Rightarrow> world \<Rightarrow> world" where
  "time_out_observer tmo passed_time kind w =
     (if \<not> observer_done (obs w) then
        (let exception =
               (if hasattr_command_string (obs w)
                then CommandTimeout tmo kind passed_time
                else ConnectionObserverTimeout tmo kind passed_time);
             w1 = call_set_exception exception w
         in call_on_timeout w1)
      else w)"



subsection \<open>\<open>CancellableFuture\<close>\<close>

text \<open>\<open>Future.cancel\<close>: a running or finished future cannot be cancelled.\<close>

definition Future_cancel :: "world \<Rightarrow> bool \<times> world" where
  "Future_cancel w =
     (if fstate (fut w) \<in> {RUNNING, FINISHED} then (False, w)
      else if fstate (fut w) \<in> {CANCELLED, CANCELLED_AND_NOTIFIED} then (True, w)
      else (True, w\<lparr>fut := (fut w)\<lparr>fstate := CANCELLED\<rparr>\<rparr>))"

text \<open>\<open>_stop\<close>: the raised exception, if any, and the world after the call.\<close>

definition CancellableFuture_stop :: "env \<Rightarrow> bool \<Rightarrow> world \<Rightarrow> exn option \<times> world" where
  "CancellableFuture_stop env no_wait w =
     (let w1 = w\<lparr>fut := (fut w)\<lparr>stop_running := True\<rparr>\<rparr>
      in if no_wait then (None, w1)
         else (let w2 = env (stop_timeout (fut w1)) (log (Wait_is_done (stop_timeout (fut w1))) w1)
               in if \<not> feed_done (fut w2)
                  then (Some (MolerException ''Failed to stop thread-running function''), w2)
                  else (None, w2)))"

definition CancellableFuture_cancel :: "env \<Rightarrow> bool \<Rightarrow> world \<Rightarrow> (exn + bool) \<times> world" where
  "CancellableFuture_cancel env no_wait w =
     (if running (fut w) then
        (case CancellableFuture_stop env no_wait w of
           (Some e, w1) \<Rightarrow> (Inl e, w1)
         | (None, w1) \<Rightarrow>
             (if no_wait then (Inr True, w1)
              else (case Future_cancel (w1\<lparr>fut := (fut w1)\<lparr>fstate := PENDING\<rparr>\<rparr>) of
                      (b, w2) \<Rightarrow> (Inr b, w2))))
      else (case Future_cancel w of (b, w1) \<Rightarrow> (Inr b, w1)))"

subsection \<open>\<open>wait_for\<close>\<close>







subsection \<open>\<open>_start_feeding\<close>: the guarded receiver\<close>

text \<open>
  The observer's \<open>data_received\<close> is a parameter: from the chunk and the observer it gives
  the exception it raised, if any, and the observer as it left it. The result of
  \<open>secure_data_received\<close> is the exception that leaves it, if any, and the world.
\<close>

type_synonym parser = "string \<Rightarrow> observer \<Rightarrow> exn option \<times> observer"

definition call_data_received :: "parser \<Rightarrow> string \<Rightarrow> world \<Rightarrow> exn option \<times> world" where
  "call_data_received dr data w =
     (case dr data (obs w) of
        (raised, ob) \<Rightarrow> (raised, log (Call_data_received data) (w\<lparr>obs := ob\<rparr>)))"

definition secure_data_received :: "parser \<Rightarrow> string \<Rightarrow> world \<Rightarrow> exn option \<times> world" where
  "secure_data_received dr data w =
     (if observer_done (obs w) \<or> in_shutdown w then (None, w)
      else
        (case call_data_received dr data (log Acquire w) of
           (None, w1) \<Rightarrow> (None, log Release w1)
         | (Some exc, w1) \<Rightarrow> (None, with_lock (call_set_exception exc) (log Release w1))))"

subsection \<open>\<open>_feed_loop\<close>\<close>

text \<open>The end of an iteration that does not leave the loop: the observer is cancelled
  when the runner is shutting down, then the thread sleeps 5 ms.\<close>

definition sleep_tick :: "env \<Rightarrow> world \<Rightarrow> world" where
  "sleep_tick env w = env 0.005 (log (Sleep 0.005) (if in_shutdown w then call_cancel w else w))"

text \<open>The loop with fuel; \<open>start\<close> is the observer's \<open>start_time\<close> read before the loop.
  \<open>None\<close> is a loop that has not ended when the fuel is used up.\<close>

fun feed_loop :: "env \<Rightarrow> nat \<Rightarrow> real \<Rightarrow> world \<Rightarrow> world option" where
  "feed_loop env 0 start w = None"
| "feed_loop env (Suc n) start w =
     (if stop_running (fut w) then Some w
      else if observer_done (obs w) then Some w
      else
        (let run_duration = clock w - start
         in case timeout (obs w) of
              None \<Rightarrow> feed_loop env n start (sleep_tick env w)
            | Some t \<Rightarrow>
                (if run_duration \<ge> t
                 then Some (with_lock (time_out_observer (timeout (obs w)) run_duration
                                         ''background_run'') w)
                 else feed_loop env n start (sleep_tick env w))))"

definition feed_loop_entry :: "env \<Rightarrow> nat \<Rightarrow> world \<Rightarrow> world option" where
  "feed_loop_entry env fuel w = feed_loop env fuel (start_time (obs w)) w"

section \<open>Device (moler/device/textualdevice.py)\<close>
















section \<open>Ssh transport (moler/io/raw/ssh.py)\<close>

text \<open>
  Class \<open>Ssh\<close>: the attributes \<open>__init__\<close> sets and the methods the class body defines.
  \<open>shell_channel\<close> is \<open>None\<close> while the connection is not open. Getting an attribute that
  neither the instance nor the class has raises \<open>AttributeError\<close>.
\<close>

record Ssh =
  host :: string
  port :: nat
  username :: "string option"
  password :: "string option"
  receive_buffer_size :: nat
  shell_channel :: "nat option"
  ssh_timeout :: "real option"

definition Ssh_init :: "string \<Rightarrow> Ssh" where
  "Ssh_init h = \<lparr>host = h, port = 22, username = None, password = None,
     receive_buffer_size = 64 * 4096, shell_channel = None, ssh_timeout = None\<rparr>"

definition Ssh_open :: "Ssh \<Rightarrow> Ssh" where
  "Ssh_open s = s\<lparr>shell_channel := Some 0\<rparr>"

definition Ssh_close :: "Ssh \<Rightarrow> Ssh" where
  "Ssh_close s = (if shell_channel s \<noteq> None then s\<lparr>shell_channel := None\<rparr> else s)"

definition Ssh_instance_attributes :: "string list" where
  "Ssh_instance_attributes = [''host'', ''port'', ''username'', ''password'',
     ''receive_buffer_size'', ''logger'', ''ssh_client'', ''shell_channel'', ''timeout'']"

definition Ssh_methods :: "string list" where
  "Ssh_methods = [''__init__'', ''settimeout'', ''open'', ''close'', ''__enter__'',
     ''__exit__'', ''__str__'', ''_debug'']"

definition Ssh_getattr :: "Ssh \<Rightarrow> string \<Rightarrow> exn + string" where
  "Ssh_getattr s name =
     (if name \<in> set Ssh_instance_attributes \<or> name \<in> set Ssh_methods then Inr name
      else Inl (AttributeError name))"

text \<open>The call \<open>conn.send(data)\<close>: the attribute is looked up first.\<close>

definition Ssh_call_send :: "Ssh \<Rightarrow> string \<Rightarrow> exn + unit" where
  "Ssh_call_send s data = (case Ssh_getattr s ''send'' of Inl e \<Rightarrow> Inl e | Inr _ \<Rightarrow> Inr ())"

section \<open>Concrete inputs\<close>

text \<open>An environment where nothing happens but time passing: a blocking call lasts as
  long as it may.\<close>

definition clock_only :: env where
  "clock_only d w = w\<lparr>clock := clock w + d\<rparr>"

text \<open>An environment where, besides, the observer's timeout is set to a new value while
  the caller sleeps.\<close>

definition retime :: "real \<Rightarrow> env" where
  "retime t d w = w\<lparr>clock := clock w + d, obs := (obs w)\<lparr>timeout := Some t\<rparr>\<rparr>"


text \<open>A command started at time 100 with timeout 1, not done.\<close>

definition a_command :: observer where
  "a_command = \<lparr>start_time = 100, timeout = Some 1, command_string = Some ''ls'',
     is_done = False, is_cancelled = False, exception = None, result = None,
     on_timeout_calls = 0\<rparr>"

text \<open>An event (no \<open>command_string\<close>) started at time 100 with timeout 1, not done.\<close>

definition an_event :: observer where
  "an_event = a_command\<lparr>command_string := None\<rparr>"

text \<open>A command that already has its result.\<close>

definition a_done_command :: observer where
  "a_done_command = a_command\<lparr>is_done := True, result := Some ''hi''\<rparr>"

text \<open>The world at time 100 with the given observer, whose feed has not been started by
  the executor yet (the future is pending).\<close>

definition world_pending :: "observer \<Rightarrow> world" where
  "world_pending ob = \<lparr>clock = 100, obs = ob,
     fut = CancellableFuture_init PENDING False False, in_shutdown = False, trace = []\<rparr>"

text \<open>The same with the feed running.\<close>

definition world_running :: "observer \<Rightarrow> world" where
  "world_running ob = (world_pending ob)\<lparr>fut := CancellableFuture_init RUNNING False False\<rparr>"





text \<open>Running \<open>time_out_observer\<close> for each entry of a list of arguments, in order.\<close>

fun time_out_all :: "(real option \<times> real \<times> string) list \<Rightarrow> world \<Rightarrow> world" where
  "time_out_all [] w = w"
| "time_out_all ((tmo, passed_time, kind) # cs) w =
     time_out_all cs (time_out_observer tmo passed_time kind w)"

section \<open>Properties of the scheduler\<close>

lemma step_paused_no_start:
  "paused j \<Longrightarrow> e \<noteq> Start \<Longrightarrow> paused (step cb j e) \<and> invocations (step cb j e) = invocations j"
  by (cases e) (simp_all add: tick_def Job_cancel_def pause_def)

lemma run_paused_no_start:
  "paused j \<Longrightarrow> Start \<notin> set es \<Longrightarrow>
   paused (run cb j es) \<and> invocations (run cb j es) = invocations j"
proof (induction es arbitrary: j)
  case Nil
  then show ?case by simp
next
  case (Cons e es)
  from Cons.prems have ne: "e \<noteq> Start" and rest: "Start \<notin> set es" by auto
  from step_paused_no_start [OF Cons.prems(1) ne, of cb]
  have p: "paused (step cb j e)" and i: "invocations (step cb j e) = invocations j" by auto
  from Cons.IH [OF p rest] i show ?case by simp
qed

lemma get_job_paused: "paused (get_job coe) \<and> invocations (get_job coe) = 0"
  by (simp add: get_job_def add_job_def pause_def Let_def)

lemma Job_cancel_paused: "paused (Job_cancel j) \<and> invocations (Job_cancel j) = invocations j"
  by (simp add: Job_cancel_def pause_def)

text \<open>
  C1 (what the code does): a job made with \<open>cancel_on_exception = True\<close> whose callback
  raises at every invocation is not paused by the first failure. After \<open>start\<close> and two
  firings the callback has been entered twice and the job is still scheduled, because
  \<open>get_job\<close> registers the attribute \<open>callback\<close> and the guard in \<open>call\<close> never runs.
\<close>

theorem C1_raising_callback_keeps_running:
  "invocations (run (\<lambda>_. Raised) (get_job True) [Start, Tick, Tick]) = 2 \<and>
   \<not> paused (run (\<lambda>_. Raised) (get_job True) [Start, Tick, Tick])"
  by (simp add: get_job_def add_job_def pause_def resume_def Job_start_def tick_def
      invoke_callback_def Let_def)

text \<open>
  The guarded method \<open>call\<close>, had it been the registered callable, pauses the job at the
  first exception: the same run then enters the callback once.
\<close>

lemma call_would_pause:
  "invocations (run (\<lambda>_. Raised) ((get_job True)\<lparr>func := Method_call\<rparr>) [Start, Tick, Tick]) = 1 \<and>
   paused (run (\<lambda>_. Raised) ((get_job True)\<lparr>func := Method_call\<rparr>) [Start, Tick, Tick])"
  by (simp add: get_job_def add_job_def pause_def resume_def Job_start_def Job_cancel_def
      tick_def invoke_callback_def DecoratedCallable_call_def Let_def)

text \<open>
  C10: a job returned by \<open>get_job\<close> is paused; while no \<open>start\<close> happens, no firing of
  the trigger enters the callback. The same holds after \<open>Job.cancel\<close>: until the next
  \<open>start\<close> the number of invocations does not change.
\<close>

theorem C10_job_initially_paused:
  "Start \<notin> set es \<Longrightarrow>
     paused (get_job coe) \<and>
     invocations (run cb (get_job coe) es) = 0 \<and>
     invocations (run cb (Job_cancel j) es) = invocations j"
  using run_paused_no_start [of "get_job coe" es cb]
    run_paused_no_start [of "Job_cancel j" es cb]
    get_job_paused [of coe] Job_cancel_paused [of j]
  by simp

theorem C10_job_initially_paused_witness:
  "Start \<notin> set [Tick, Cancel, Tick] \<and>
   paused (get_job False) \<and>
   invocations (run (\<lambda>_. Returned) (get_job False) [Tick, Cancel, Tick]) = 0 \<and>
   invocations (run (\<lambda>_. Returned) (Job_cancel (tick (\<lambda>_. Returned) (Job_start (get_job False))))
      [Tick, Cancel, Tick]) = 1"
proof -
  have h: "Start \<notin> set [Tick, Cancel, Tick]" by simp
  have i: "invocations (tick (\<lambda>_. Returned) (Job_start (get_job False))) = 1"
    by (simp add: get_job_def add_job_def pause_def resume_def Job_start_def tick_def
        invoke_callback_def Let_def)
  show ?thesis
    using h i C10_job_initially_paused [OF h, of False "\<lambda>_. Returned"
        "tick (\<lambda>_. Returned) (Job_start (get_job False))"]
    by simp
qed

section \<open>Properties of the runner\<close>

lemma time_out_observer_done: "observer_done (obs w) \<Longrightarrow> time_out_observer tmo p k w = w"
  by (simp add: time_out_observer_def)

lemma time_out_observer_fires:
  "\<not> observer_done (obs w) \<Longrightarrow>
   time_out_observer tmo p k w =
     w\<lparr>obs := (obs w)\<lparr>is_done := True,
          exception := Some (if command_string (obs w) \<noteq> None then CommandTimeout tmo k p
                             else ConnectionObserverTimeout tmo k p),
          on_timeout_calls := Suc (on_timeout_calls (obs w))\<rparr>,
       trace := trace w @ [Call_set_exception (if command_string (obs w) \<noteq> None then CommandTimeout tmo k p
                             else ConnectionObserverTimeout tmo k p), Call_on_timeout]\<rparr>"
  by (simp add: time_out_observer_def call_set_exception_def call_on_timeout_def log_def
      set_exception_def on_timeout_def hasattr_command_string_def observer_done_def Let_def)

text \<open>
  C4: when \<open>time_out_observer\<close> is called on an observer that is not done, the observer
  becomes done and the exception written into it is a \<open>CommandTimeout\<close> if the observer
  has a \<open>command_string\<close> (a command), and a \<open>ConnectionObserverTimeout\<close> (the spec's
  \<open>ObserverTimeout\<close>) otherwise (an event).
\<close>

theorem C4_timeout_exception_kind:
  "\<not> observer_done (obs w) \<Longrightarrow>
     observer_done (obs (time_out_observer tmo passed_time kind w)) \<and>
     exception (obs (time_out_observer tmo passed_time kind w)) =
       Some (if command_string (obs w) \<noteq> None
             then CommandTimeout tmo kind passed_time
             else ConnectionObserverTimeout tmo kind passed_time)"
  by (simp add: time_out_observer_fires observer_done_def)

theorem C4_timeout_exception_kind_witness:
  "\<not> observer_done (obs (world_running a_command)) \<and>
   \<not> observer_done (obs (world_running an_event)) \<and>
   exception (obs (time_out_observer (Some 1) 2 ''background_run'' (world_running a_command))) =
     Some (CommandTimeout (Some 1) ''background_run'' 2) \<and>
   exception (obs (time_out_observer (Some 1) 2 ''background_run'' (world_running an_event))) =
     Some (ConnectionObserverTimeout (Some 1) ''background_run'' 2)"
proof -
  have c: "\<not> observer_done (obs (world_running a_command))"
    by (simp add: world_running_def world_pending_def a_command_def observer_done_def)
  have e: "\<not> observer_done (obs (world_running an_event))"
    by (simp add: world_running_def world_pending_def a_command_def an_event_def observer_done_def)
  have cc: "command_string (obs (world_running a_command)) \<noteq> None"
    by (simp add: world_running_def world_pending_def a_command_def)
  have ee: "command_string (obs (world_running an_event)) = None"
    by (simp add: world_running_def world_pending_def a_command_def an_event_def)
  show ?thesis
    using c e cc ee
      C4_timeout_exception_kind [OF c, of "Some 1" 2 "''background_run''"]
      C4_timeout_exception_kind [OF e, of "Some 1" 2 "''background_run''"]
    by simp
qed

lemma time_out_observer_calls:
  "on_timeout_calls (obs (time_out_observer tmo p k w)) =
     (if observer_done (obs w) then on_timeout_calls (obs w) else Suc (on_timeout_calls (obs w)))"
  by (simp add: time_out_observer_fires time_out_observer_done)

lemma time_out_observer_makes_done: "observer_done (obs (time_out_observer tmo p k w))"
  by (cases "observer_done (obs w)")
     (simp_all add: time_out_observer_fires time_out_observer_done observer_done_def)

lemma time_out_all_done: "observer_done (obs w) \<Longrightarrow> time_out_all cs w = w"
  by (induction cs arbitrary: w) (auto simp: time_out_observer_done)

lemma time_out_all_calls:
  "on_timeout_calls (obs (time_out_all cs w)) \<le> Suc (on_timeout_calls (obs w))"
proof (cases cs)
  case Nil
  then show ?thesis by simp
next
  case (Cons c cs')
  obtain tmo p k where c: "c = (tmo, p, k)" by (cases c) auto
  have "time_out_all cs w = time_out_observer tmo p k w"
    using Cons c time_out_all_done [OF time_out_observer_makes_done] by simp
  then show ?thesis by (simp add: time_out_observer_calls)
qed

text \<open>
  C5: \<open>time_out_observer\<close> on an observer that is already done changes nothing: no
  exception is written, \<open>on_timeout\<close> is not called, nothing is logged. Hence however
  often \<open>time_out_observer\<close> is called on an observer, \<open>on_timeout\<close> is called at most
  once.
\<close>

theorem C5_timeout_fires_at_most_once:
  "(observer_done (obs w) \<longrightarrow> time_out_observer tmo passed_time kind w = w) \<and>
   on_timeout_calls (obs (time_out_all cs w)) \<le> Suc (on_timeout_calls (obs w))"
  using time_out_observer_done [of w tmo passed_time kind] time_out_all_calls [of cs w]
  by simp

theorem C5_timeout_fires_at_most_once_witness:
  "observer_done (obs (world_running a_done_command)) \<and>
   time_out_observer (Some 1) 2 ''background_run'' (world_running a_done_command)
     = world_running a_done_command \<and>
   on_timeout_calls (obs (time_out_all [(Some 1, 2, ''background_run''), (Some 1, 2, ''await_done'')]
      (world_running a_command))) \<le> 1"
proof -
  have d: "observer_done (obs (world_running a_done_command))"
    by (simp add: world_running_def world_pending_def a_done_command_def a_command_def
        observer_done_def)
  have z: "on_timeout_calls (obs (world_running a_command)) = 0"
    by (simp add: world_running_def world_pending_def a_command_def)
  show ?thesis
    using d z
      C5_timeout_fires_at_most_once [of "world_running a_done_command" "Some 1" 2
        "''background_run''" "[]"]
      C5_timeout_fires_at_most_once [of "world_running a_command" "Some 1" 2
        "''background_run''" "[(Some 1, 2, ''background_run''), (Some 1, 2, ''await_done'')]"]
    by simp
qed



lemma secure_data_received_ok:
  "\<not> observer_done (obs w) \<Longrightarrow> \<not> in_shutdown w \<Longrightarrow> dr data (obs w) = (None, ob) \<Longrightarrow>
   secure_data_received dr data w =
     (None, w\<lparr>obs := ob, trace := trace w @ [Acquire, Call_data_received data, Release]\<rparr>)"
  by (simp add: secure_data_received_def call_data_received_def log_def)






lemma with_lock_time_out_fires:
  "\<not> observer_done (obs w) \<Longrightarrow>
   with_lock (time_out_observer tmo p k) w =
     w\<lparr>obs := (obs w)\<lparr>is_done := True,
          exception := Some (if command_string (obs w) \<noteq> None then CommandTimeout tmo k p
                             else ConnectionObserverTimeout tmo k p),
          on_timeout_calls := Suc (on_timeout_calls (obs w))\<rparr>,
       trace := trace w @ [Acquire,
          Call_set_exception (if command_string (obs w) \<noteq> None then CommandTimeout tmo k p
                             else ConnectionObserverTimeout tmo k p),
          Call_on_timeout, Release]\<rparr>"
proof -
  assume nd: "\<not> observer_done (obs w)"
  have "\<not> observer_done (obs (log Acquire w))" using nd by (simp add: log_def)
  from time_out_observer_fires [OF this, of tmo p k]
  show ?thesis by (simp add: with_lock_def log_def)
qed

lemma feed_loop_expired:
  "\<not> stop_running (fut w) \<Longrightarrow> \<not> observer_done (obs w) \<Longrightarrow> timeout (obs w) = Some t \<Longrightarrow>
   start + t \<le> clock w \<Longrightarrow>
   feed_loop env (Suc n) start w =
     Some (with_lock (time_out_observer (Some t) (clock w - start) ''background_run'') w)"
  by (simp add: Let_def)

lemma feed_loop_not_expired:
  "\<not> stop_running (fut w) \<Longrightarrow> \<not> observer_done (obs w) \<Longrightarrow> timeout (obs w) = Some t \<Longrightarrow>
   clock w < start + t \<Longrightarrow>
   feed_loop env (Suc n) start w = feed_loop env n start (sleep_tick env w)"
  by (simp add: Let_def)

text \<open>
  C8: at every iteration the loop compares the run duration with the value \<open>timeout\<close> has
  at that moment. For a running observer that is not done and whose timeout is \<open>t\<close> at
  this tick: if \<open>start_time + t\<close> has passed, the loop ends with the observer timed out
  under the observer lock (exception written, \<open>on_timeout\<close> called); if not, nothing is
  written and the loop goes on to the next tick, where the same holds for the value the
  timeout has then. So a raised timeout postpones the deadline and a timeout lowered below
  the elapsed time times the observer out at the next tick.
\<close>

theorem C8_feed_loop_rereads_timeout:
  "\<not> stop_running (fut w) \<Longrightarrow> \<not> observer_done (obs w) \<Longrightarrow> timeout (obs w) = Some t \<Longrightarrow>
   (start + t \<le> clock w \<longrightarrow>
      feed_loop env (Suc n) start w =
        Some (w\<lparr>obs := (obs w)\<lparr>is_done := True,
                  exception := Some (if command_string (obs w) \<noteq> None
                     then CommandTimeout (Some t) ''background_run'' (clock w - start)
                     else ConnectionObserverTimeout (Some t) ''background_run'' (clock w - start)),
                  on_timeout_calls := Suc (on_timeout_calls (obs w))\<rparr>,
                trace := trace w @ [Acquire,
                  Call_set_exception (if command_string (obs w) \<noteq> None
                     then CommandTimeout (Some t) ''background_run'' (clock w - start)
                     else ConnectionObserverTimeout (Some t) ''background_run'' (clock w - start)),
                  Call_on_timeout, Release]\<rparr>)) \<and>
   (clock w < start + t \<longrightarrow>
      feed_loop env (Suc n) start w = feed_loop env n start (sleep_tick env w))"
  using feed_loop_expired [of w t start env n] feed_loop_not_expired [of w t start env n]
    with_lock_time_out_fires [of w "Some t" "clock w - start" "''background_run''"]
  by simp

lemma a_command_world_facts:
  "\<not> stop_running (fut (world_running a_command))"
  "\<not> observer_done (obs (world_running a_command))"
  "timeout (obs (world_running a_command)) = Some 1"
  "clock (world_running a_command) = 100"
  "trace (world_running a_command) = []"
  "command_string (obs (world_running a_command)) = Some ''ls''"
  by (simp_all add: world_running_def world_pending_def a_command_def observer_done_def
      CancellableFuture_init_def)

lemma retimed_world_facts:
  "\<not> stop_running (fut (sleep_tick (retime x) (world_running a_command)))"
  "\<not> observer_done (obs (sleep_tick (retime x) (world_running a_command)))"
  "timeout (obs (sleep_tick (retime x) (world_running a_command))) = Some x"
  "clock (sleep_tick (retime x) (world_running a_command)) = 100 + 5 / 1000"
  "trace (sleep_tick (retime x) (world_running a_command)) = [Sleep (5 / 1000)]"
  "command_string (obs (sleep_tick (retime x) (world_running a_command))) = Some ''ls''"
  by (simp_all add: sleep_tick_def retime_def log_def world_running_def world_pending_def
      a_command_def observer_done_def CancellableFuture_init_def)

theorem C8_feed_loop_rereads_timeout_witness:
  "\<not> stop_running (fut (world_running a_command)) \<and>
   \<not> observer_done (obs (world_running a_command)) \<and>
   timeout (obs (world_running a_command)) = Some 1 \<and>
   clock (world_running a_command) < 100 + 1 \<and>
   timeout (obs (sleep_tick (retime (1 / 1000)) (world_running a_command))) = Some (1 / 1000) \<and>
   100 + 1 / 1000 \<le> clock (sleep_tick (retime (1 / 1000)) (world_running a_command)) \<and>
   map_option (\<lambda>w. (exception (obs w), trace w))
     (feed_loop (retime (1 / 1000)) (Suc (Suc 0)) 100 (world_running a_command)) =
     Some (Some (CommandTimeout (Some (1 / 1000)) ''background_run'' (5 / 1000)),
           [Sleep (5 / 1000), Acquire,
            Call_set_exception (CommandTimeout (Some (1 / 1000)) ''background_run'' (5 / 1000)),
            Call_on_timeout, Release])"
proof -
  note first = C8_feed_loop_rereads_timeout [where w = "world_running a_command" and t = 1
      and start = 100 and env = "retime (1 / 1000)" and n = "Suc 0",
      OF a_command_world_facts(1,2,3)]
  note second = C8_feed_loop_rereads_timeout [
      where w = "sleep_tick (retime (1 / 1000)) (world_running a_command)" and t = "1 / 1000"
      and start = 100 and env = "retime (1 / 1000)" and n = 0,
      OF retimed_world_facts(1,2,3)]
  have 1: "feed_loop (retime (1 / 1000)) (Suc (Suc 0)) 100 (world_running a_command) =
           feed_loop (retime (1 / 1000)) (Suc 0) 100
             (sleep_tick (retime (1 / 1000)) (world_running a_command))"
    using first a_command_world_facts(4) by simp
  have 2: "map_option (\<lambda>w. (exception (obs w), trace w))
     (feed_loop (retime (1 / 1000)) (Suc 0) 100
             (sleep_tick (retime (1 / 1000)) (world_running a_command))) =
     Some (Some (CommandTimeout (Some (1 / 1000)) ''background_run'' (5 / 1000)),
           [Sleep (5 / 1000), Acquire,
            Call_set_exception (CommandTimeout (Some (1 / 1000)) ''background_run'' (5 / 1000)),
            Call_on_timeout, Release])"
    using second retimed_world_facts(4,5,6) [of "1 / 1000"] by simp
  show ?thesis
    using 1 2 a_command_world_facts retimed_world_facts(3,4) [of "1 / 1000"] by simp
qed

text \<open>
  Raising the timeout before expiry: the command started at 99.001 with timeout 1 is not
  expired at the tick at time 100; during the sleep the timeout is set to 5, and the next
  tick, at 100.005 (past the old deadline 100.001), does not time it out: the loop sleeps
  again.
\<close>

lemma raising_postpones:
  "feed_loop (retime 5) (Suc (Suc 0)) (99 + 1 / 1000) (world_running a_command) =
   feed_loop (retime 5) 0 (99 + 1 / 1000)
     (sleep_tick (retime 5) (sleep_tick (retime 5) (world_running a_command)))"
  by (simp add: sleep_tick_def retime_def log_def world_running_def world_pending_def
      a_command_def observer_done_def CancellableFuture_init_def Let_def)


lemma cancel_no_wait_running:
  "running (fut w) \<Longrightarrow>
   CancellableFuture_cancel env True w = (Inr True, w\<lparr>fut := (fut w)\<lparr>stop_running := True\<rparr>\<rparr>)"
  by (simp add: CancellableFuture_cancel_def CancellableFuture_stop_def Let_def)

lemma cancel_wait_running:
  "running (fut w) \<Longrightarrow>
   w2 = env (stop_timeout (fut w))
          (log (Wait_is_done (stop_timeout (fut w))) (w\<lparr>fut := (fut w)\<lparr>stop_running := True\<rparr>\<rparr>)) \<Longrightarrow>
   CancellableFuture_cancel env False w =
     (if feed_done (fut w2) then (Inr True, w2\<lparr>fut := (fut w2)\<lparr>fstate := CANCELLED\<rparr>\<rparr>)
      else (Inl (MolerException ''Failed to stop thread-running function''), w2))"
  by (simp add: CancellableFuture_cancel_def CancellableFuture_stop_def Future_cancel_def
      Let_def)

lemma cancel_not_running:
  "\<not> running (fut w) \<Longrightarrow>
   CancellableFuture_cancel env no_wait w = (Inr (fst (Future_cancel w)), snd (Future_cancel w))"
  by (simp add: CancellableFuture_cancel_def split: prod.splits)

lemma Future_cancel_frame:
  "stop_running (fut (snd (Future_cancel w))) = stop_running (fut w) \<and>
   feed_done (fut (snd (Future_cancel w))) = feed_done (fut w) \<and>
   trace (snd (Future_cancel w)) = trace w"
  by (simp add: Future_cancel_def)





lemma pending_world_facts:
  "\<not> observer_done (obs (world_pending a_command))"
  "clock (world_pending a_command) = 100"
  "start_time (obs (world_pending a_command)) = 100"
  "trace (world_pending a_command) = []"
  "command_string (obs (world_pending a_command)) = Some ''ls''"
  "fstate (fut (world_pending a_command)) = PENDING"
  "\<not> stop_running (fut (world_pending a_command))"
  "\<not> running (fut (world_pending a_command))"
  by (simp_all add: world_pending_def a_command_def observer_done_def
      CancellableFuture_init_def running_def)






text \<open>
  C6 (as the code has it): when the wrapped future is running, \<open>cancel(no_wait=True)\<close> sets
  the stop flag and returns \<open>True\<close> with nothing else done; \<open>cancel(no_wait=False)\<close> sets the
  stop flag and waits for the done flag for \<open>stop_timeout\<close>; with the flag set in time the
  future is cancelled and the result is \<open>True\<close>, otherwise \<open>MolerException\<close> (the spec's
  internal error) is raised. When the future is not running, \<open>cancel\<close> only calls the
  future's own \<open>cancel\<close>: the stop flag is left as it was and nothing is waited for. The
  handle is built with \<open>stop_timeout = 0.5\<close>.
\<close>

theorem C6_cancel_stop_and_wait:
  "(running (fut w) \<longrightarrow>
      CancellableFuture_cancel env True w =
        (Inr True, w\<lparr>fut := (fut w)\<lparr>stop_running := True\<rparr>\<rparr>) \<and>
      (feed_done (fut (env (stop_timeout (fut w))
           (log (Wait_is_done (stop_timeout (fut w)))
              (w\<lparr>fut := (fut w)\<lparr>stop_running := True\<rparr>\<rparr>)))) \<longrightarrow>
         fst (CancellableFuture_cancel env False w) = Inr True) \<and>
      (\<not> feed_done (fut (env (stop_timeout (fut w))
           (log (Wait_is_done (stop_timeout (fut w)))
              (w\<lparr>fut := (fut w)\<lparr>stop_running := True\<rparr>\<rparr>)))) \<longrightarrow>
         fst (CancellableFuture_cancel env False w) =
           Inl (MolerException ''Failed to stop thread-running function'')) \<and>
      snd (CancellableFuture_cancel env False w) =
        (let w2 = env (stop_timeout (fut w))
                    (log (Wait_is_done (stop_timeout (fut w)))
                       (w\<lparr>fut := (fut w)\<lparr>stop_running := True\<rparr>\<rparr>))
         in if feed_done (fut w2) then w2\<lparr>fut := (fut w2)\<lparr>fstate := CANCELLED\<rparr>\<rparr> else w2)) \<and>
   (\<not> running (fut w) \<longrightarrow>
      CancellableFuture_cancel env no_wait w
        = (Inr (fst (Future_cancel w)), snd (Future_cancel w)) \<and>
      stop_running (fut (snd (CancellableFuture_cancel env no_wait w))) = stop_running (fut w) \<and>
      trace (snd (CancellableFuture_cancel env no_wait w)) = trace w) \<and>
   stop_timeout (CancellableFuture_init st stop dn) = 1 / 2"
proof (intro conjI impI)
  assume r: "running (fut w)"
  show "CancellableFuture_cancel env True w =
        (Inr True, w\<lparr>fut := (fut w)\<lparr>stop_running := True\<rparr>\<rparr>)"
    by (rule cancel_no_wait_running [OF r])
next
  assume r: "running (fut w)"
    and d: "feed_done (fut (env (stop_timeout (fut w))
           (log (Wait_is_done (stop_timeout (fut w)))
              (w\<lparr>fut := (fut w)\<lparr>stop_running := True\<rparr>\<rparr>))))"
  show "fst (CancellableFuture_cancel env False w) = Inr True"
    using cancel_wait_running [OF r refl, of env] d by simp
next
  assume r: "running (fut w)"
    and d: "\<not> feed_done (fut (env (stop_timeout (fut w))
           (log (Wait_is_done (stop_timeout (fut w)))
              (w\<lparr>fut := (fut w)\<lparr>stop_running := True\<rparr>\<rparr>))))"
  show "fst (CancellableFuture_cancel env False w) =
           Inl (MolerException ''Failed to stop thread-running function'')"
    using cancel_wait_running [OF r refl, of env] d by simp
next
  assume r: "running (fut w)"
  show "snd (CancellableFuture_cancel env False w) =
        (let w2 = env (stop_timeout (fut w))
                    (log (Wait_is_done (stop_timeout (fut w)))
                       (w\<lparr>fut := (fut w)\<lparr>stop_running := True\<rparr>\<rparr>))
         in if feed_done (fut w2) then w2\<lparr>fut := (fut w2)\<lparr>fstate := CANCELLED\<rparr>\<rparr> else w2)"
    using cancel_wait_running [OF r refl, of env] by (simp add: Let_def)
next
  assume n: "\<not> running (fut w)"
  show "CancellableFuture_cancel env no_wait w
        = (Inr (fst (Future_cancel w)), snd (Future_cancel w))"
    by (rule cancel_not_running [OF n])
next
  assume n: "\<not> running (fut w)"
  show "stop_running (fut (snd (CancellableFuture_cancel env no_wait w))) = stop_running (fut w)"
    using cancel_not_running [OF n, of env no_wait] Future_cancel_frame [of w] by simp
next
  assume n: "\<not> running (fut w)"
  show "trace (snd (CancellableFuture_cancel env no_wait w)) = trace w"
    using cancel_not_running [OF n, of env no_wait] Future_cancel_frame [of w] by simp
next
  show "stop_timeout (CancellableFuture_init st stop dn) = 1 / 2"
    by (simp add: CancellableFuture_init_def)
qed

text \<open>
  C6 as stated fails for a handle whose feed the executor has not started yet: the future
  is pending, \<open>cancel(no_wait=True)\<close> returns \<open>True\<close> and the stop flag is still unset.
\<close>

theorem C6_pending_future_counterexample:
  "fstate (fut (world_pending a_command)) = PENDING \<and>
   \<not> stop_running (fut (world_pending a_command)) \<and>
   fst (CancellableFuture_cancel clock_only True (world_pending a_command)) = Inr True \<and>
   \<not> stop_running (fut (snd (CancellableFuture_cancel clock_only True (world_pending a_command))))"
  by (simp add: CancellableFuture_cancel_def Future_cancel_def running_def world_pending_def
      CancellableFuture_init_def)

lemma running_world_facts:
  "running (fut (world_running a_command))"
  "stop_timeout (fut (world_running a_command)) = 1 / 2"
  "\<not> feed_done (fut (clock_only d (log a
       ((world_running a_command)\<lparr>fut := (fut (world_running a_command))\<lparr>stop_running := True\<rparr>\<rparr>))))"
  "stop_running (fut (clock_only d (log a
       ((world_running a_command)\<lparr>fut := (fut (world_running a_command))\<lparr>stop_running := True\<rparr>\<rparr>))))"
  "trace (clock_only d (log a
       ((world_running a_command)\<lparr>fut := (fut (world_running a_command))\<lparr>stop_running := True\<rparr>\<rparr>))) = [a]"
  by (simp_all add: world_running_def world_pending_def CancellableFuture_init_def running_def
      clock_only_def log_def)

theorem C6_cancel_stop_and_wait_witness:
  "running (fut (world_running a_command)) \<and>
   \<not> running (fut (world_pending a_command)) \<and>
   fst (CancellableFuture_cancel clock_only True (world_running a_command)) = Inr True \<and>
   stop_running (fut (snd (CancellableFuture_cancel clock_only True (world_running a_command)))) \<and>
   trace (snd (CancellableFuture_cancel clock_only True (world_running a_command))) = [] \<and>
   fst (CancellableFuture_cancel clock_only False (world_running a_command)) =
     Inl (MolerException ''Failed to stop thread-running function'') \<and>
   trace (snd (CancellableFuture_cancel clock_only False (world_running a_command))) =
     [Wait_is_done (1 / 2)] \<and>
   \<not> stop_running (fut (snd (CancellableFuture_cancel clock_only False (world_pending a_command))))"
proof -
  note r = C6_cancel_stop_and_wait [where w = "world_running a_command" and env = clock_only
      and no_wait = False and st = RUNNING and stop = False and dn = False]
  note p = C6_cancel_stop_and_wait [where w = "world_pending a_command" and env = clock_only
      and no_wait = False and st = PENDING and stop = False and dn = False]
  have t0: "trace (world_running a_command) = []"
    by (simp add: world_running_def world_pending_def)
  from r running_world_facts(1)
  have 1: "CancellableFuture_cancel clock_only True (world_running a_command) =
        (Inr True, (world_running a_command)
           \<lparr>fut := (fut (world_running a_command))\<lparr>stop_running := True\<rparr>\<rparr>)"
    by blast
  from r running_world_facts(1,2) running_world_facts(3) [of "1 / 2" "Wait_is_done (1 / 2)"]
  have 2: "fst (CancellableFuture_cancel clock_only False (world_running a_command)) =
     Inl (MolerException ''Failed to stop thread-running function'')"
    by simp
  from r running_world_facts(1,2) running_world_facts(3,5) [of "1 / 2" "Wait_is_done (1 / 2)"]
  have 3: "trace (snd (CancellableFuture_cancel clock_only False (world_running a_command))) =
     [Wait_is_done (1 / 2)]"
    by (simp add: Let_def)
  from p pending_world_facts(8)
  have "stop_running (fut (snd (CancellableFuture_cancel clock_only False
              (world_pending a_command)))) = stop_running (fut (world_pending a_command))"
    by blast
  with pending_world_facts(7)
  have 4: "\<not> stop_running (fut (snd (CancellableFuture_cancel clock_only False
              (world_pending a_command))))"
    by simp
  from 1 2 3 4 t0 running_world_facts(1) pending_world_facts(8) show ?thesis by simp
qed

section \<open>Properties of the device\<close>





















section \<open>Properties of the Ssh transport\<close>

text \<open>
  C9 (what the code does): class \<open>Ssh\<close> defines no \<open>send\<close>. Calling \<open>send\<close> on a closed
  connection (and on an open one) raises \<open>AttributeError\<close>, not
  \<open>RemoteEndpointNotConnected\<close>.
\<close>

theorem C9_Ssh_has_no_send:
  "shell_channel (Ssh_close (Ssh_init ''192.168.44.50'')) = None \<and>
   Ssh_call_send (Ssh_close (Ssh_init ''192.168.44.50'')) ''ls'' = Inl (AttributeError ''send'') \<and>
   Ssh_call_send (Ssh_close (Ssh_init ''192.168.44.50'')) ''ls'' \<noteq> Inl RemoteEndpointNotConnected \<and>
   Ssh_call_send (Ssh_open (Ssh_init ''192.168.44.50'')) ''ls'' = Inl (AttributeError ''send'')"
  by (simp add: Ssh_call_send_def Ssh_getattr_def Ssh_instance_attributes_def Ssh_methods_def
      Ssh_close_def Ssh_init_def)

end
